theory Spec2Isabelle
  imports Main
begin

section \<open>Python strings\<close>

text \<open>
  A Python \<open>str\<close> is a sequence of code points. The model is over \<^typ>\<open>string\<close>, a list of
  \<^typ>\<open>char\<close>, each standing for one code point below 256 (ASCII and Latin-1): on these
  \<open>str.lower\<close> maps one code point to one code point, as \<open>lower_char\<close> does, and
  the standard library's check of a network location under NFKC normalisation never raises.
  Brand names and URLs with code points from 256 on are outside the model.
\<close>

definition is_upper :: "char \<Rightarrow> bool" where
  "is_upper c =
     (let n = (of_char c :: nat)
      in (65 \<le> n \<and> n \<le> 90) \<or> (192 \<le> n \<and> n \<le> 222 \<and> n \<noteq> 215))"

definition lower_char :: "char \<Rightarrow> char" where
  "lower_char c = (if is_upper c then char_of (of_char c + (32::nat)) else c)"

text \<open>\<open>s.lower()\<close>\<close>

definition lower :: "string \<Rightarrow> string" where
  "lower s = map lower_char s"

text \<open>\<open>s.startswith(p)\<close> and \<open>s.endswith(p)\<close>\<close>

definition startswith :: "string \<Rightarrow> string \<Rightarrow> bool" where
  "startswith s p = (take (length p) s = p)"

definition endswith :: "string \<Rightarrow> string \<Rightarrow> bool" where
  "endswith s p = (length p \<le> length s \<and> drop (length s - length p) s = p)"

text \<open>\<open>sub in s\<close>: the first argument occurs in the second as a contiguous run.\<close>

fun str_in :: "string \<Rightarrow> string \<Rightarrow> bool" where
  "str_in sub [] = (sub = [])"
| "str_in sub (c # cs) = (startswith (c # cs) sub \<or> str_in sub cs)"

text \<open>\<open>re.sub(r"[^a-z0-9]+", "", s)\<close>: every run of other characters is deleted.\<close>

definition slug_char :: "char \<Rightarrow> bool" where
  "slug_char c =
     (let n = (of_char c :: nat) in (97 \<le> n \<and> n \<le> 122) \<or> (48 \<le> n \<and> n \<le> 57))"

definition re_sub_non_alnum :: "string \<Rightarrow> string" where
  "re_sub_non_alnum s = filter slug_char s"

section \<open>Exceptions, the network and the libraries\<close>

text \<open>
  The exceptions the model tells apart: \<open>ValueError\<close> (raised by \<open>urlparse\<close>),
  \<open>KeyError\<close> (a dictionary without the key read) and \<open>NetworkError\<close>, which stands
  for whatever \<open>requests\<close> or the search provider raises.
\<close>

datatype error = ValueError | KeyError | NetworkError

text \<open>
  One row of the infobox, as \<open>fetch_wikipedia_site\<close> reads it: \<open>th_text\<close> is
  \<open>row.find("th").get_text(strip=True)\<close>, or \<open>None\<close> when the row has no header cell;
  \<open>hrefs\<close> are the \<open>href\<close> values of the row's anchors that have one, in document order, so
  that \<open>row.find("a", href=True)\<close> is the head of the list.
\<close>

record row =
  th_text :: "string option"
  hrefs :: "string list"

text \<open>One search result of the provider: a dictionary from field names to strings.\<close>

type_synonym result = "string \<rightharpoonup> string"

text \<open>
  What the program's surroundings answer.
  \<^item> \<open>bracketed_netloc_ok\<close>: whether the standard library accepts a network location with
    both \<open>[\<close> and \<open>]\<close> in it (its check of the bracketed host uses the \<open>ipaddress\<close>
    module and differs between Python releases);
  \<^item> \<open>wikidata_get\<close>: for a query text, the values \<open>bindings[i]["website"]["value"]\<close> of
    the response, or the exception raised on the way (request, status, JSON, missing key);
  \<^item> \<open>wikipedia_search\<close>: for a search text, the page ids of \<open>sdata["query"]["search"]\<close>;
  \<^item> \<open>wikipedia_parse\<close>: for a page id, the rows of the first table of class
    \<open>infobox\<close> of the rendered page, \<open>None\<close> when the page has no such table;
  \<^item> \<open>ddgs_text\<close>: for a query text, the results the provider yields, and the exception it
    raises after them, if any.
\<close>

record env =
  bracketed_netloc_ok :: "string \<Rightarrow> bool"
  wikidata_get :: "string \<Rightarrow> error + string list"
  wikipedia_search :: "string \<Rightarrow> error + nat list"
  wikipedia_parse :: "nat \<Rightarrow> error + row list option"
  ddgs_text :: "string \<Rightarrow> result list \<times> error option"

text \<open>The requests a call sends out, in order.\<close>

datatype request =
  WikidataQuery string
| WikipediaSearch string
| WikipediaParse nat
| DuckDuckGoSearch string

section \<open>\<open>urllib.parse.urlparse(url).netloc\<close>\<close>

definition c0_control_or_space :: "char \<Rightarrow> bool" where
  "c0_control_or_space c = ((of_char c :: nat) \<le> 32)"

definition unsafe_url_byte :: "char \<Rightarrow> bool" where
  "unsafe_url_byte c = (c = CHR 0x09 \<or> c = CHR 0x0D \<or> c = CHR 0x0A)"

definition scheme_char :: "char \<Rightarrow> bool" where
  "scheme_char c =
     (let n = (of_char c :: nat)
      in (97 \<le> n \<and> n \<le> 122) \<or> (65 \<le> n \<and> n \<le> 90) \<or> (48 \<le> n \<and> n \<le> 57)
         \<or> c = CHR ''+'' \<or> c = CHR ''-'' \<or> c = CHR ''.'')"

definition ascii_alpha :: "char \<Rightarrow> bool" where
  "ascii_alpha c =
     (let n = (of_char c :: nat) in (97 \<le> n \<and> n \<le> 122) \<or> (65 \<le> n \<and> n \<le> 90))"

text \<open>
  The scheme is cut off when the text before the first colon is not empty, starts with an
  ASCII letter and has scheme characters only.
\<close>

definition strip_scheme :: "string \<Rightarrow> string" where
  "strip_scheme url =
     (let pre = takeWhile (\<lambda>c. c \<noteq> CHR '':'') url
      in if length pre < length url \<and> pre \<noteq> [] \<and> ascii_alpha (hd url) \<and> list_all scheme_char pre
         then drop (length pre + 1) url else url)"

text \<open>\<open>_splitnetloc(url, 2)\<close>: up to the first of \<open>/\<close>, \<open>?\<close> and \<open>#\<close>.\<close>

definition splitnetloc :: "string \<Rightarrow> string" where
  "splitnetloc url =
     takeWhile (\<lambda>c. c \<noteq> CHR ''/'' \<and> c \<noteq> CHR ''?'' \<and> c \<noteq> CHR ''#'') (drop 2 url)"

definition urlparse_netloc :: "env \<Rightarrow> string \<Rightarrow> error + string" where
  "urlparse_netloc e url0 =
     (let url = strip_scheme (filter (\<lambda>c. \<not> unsafe_url_byte c) (dropWhile c0_control_or_space url0))
      in if take 2 url = ''//'' then
           (let netloc = splitnetloc url;
                opn = CHR ''['' \<in> set netloc;
                cls = CHR '']'' \<in> set netloc
            in if (opn \<and> \<not> cls) \<or> (cls \<and> \<not> opn) then Inl ValueError
               else if opn \<and> cls \<and> \<not> bracketed_netloc_ok e netloc then Inl ValueError
               else Inr netloc)
         else Inr [])"

section \<open>The domain heuristic\<close>

definition EXCLUDE_DOMAINS :: "string set" where
  "EXCLUDE_DOMAINS =
     {''wikipedia.org'', ''facebook.com'', ''instagram.com'', ''youtube.com'', ''twitter.com'',
      ''linkedin.com'', ''amazon.com'', ''etsy.com'', ''pinterest.com'', ''reddit.com'',
      ''sephora.com'', ''ulta.com'', ''walmart.com''}"

text \<open>\<open>brand_slug\<close>, \<open>domain\<close> and \<open>domain_nw\<close> are the local variables of \<open>_looks_official\<close>.\<close>

definition brand_slug :: "string \<Rightarrow> string" where
  "brand_slug brand = re_sub_non_alnum (lower brand)"

definition domain :: "string \<Rightarrow> string" where
  "domain netloc = lower netloc"

definition domain_nw :: "string \<Rightarrow> string" where
  "domain_nw d = (if startswith d ''www.'' then drop 4 d else d)"

definition looks_official :: "env \<Rightarrow> string \<Rightarrow> string \<Rightarrow> error + bool" where
  "looks_official e url brand =
     (case urlparse_netloc e url of
        Inl err \<Rightarrow> Inl err
      | Inr netloc \<Rightarrow>
          if endswith (domain netloc) ''.ru'' then Inr False
          else if \<exists>bad \<in> EXCLUDE_DOMAINS. endswith (domain_nw (domain netloc)) bad then Inr False
          else Inr (str_in (take 6 (brand_slug brand)) (domain_nw (domain netloc))))"






section \<open>The three sources\<close>

text \<open>
  The text of the structured query: the f-string of \<open>fetch_wikidata_site\<close>, with the name
  put between the two fixed parts as it is.
\<close>

definition query_head :: string where
  \<open>query_head =
     ''SELECT ?website WHERE {'' @ [CHR 0x0A] @ ''      ?entity rdfs:label "''\<close>

definition query_tail :: string where
  \<open>query_tail =
     ''"@en .'' @ [CHR 0x0A] @ ''      ?entity wdt:P856 ?website .'' @ [CHR 0x0A] @ ''    } LIMIT 1''\<close>

definition wikidata_query :: "string \<Rightarrow> string" where
  "wikidata_query name = query_head @ name @ query_tail"

text \<open>
  Each source returns its value and the requests it sent. \<open>fetch_wikidata_site\<close> and
  \<open>fetch_wikipedia_site\<close> catch every exception and return \<open>None\<close>;
  \<open>fetch_duckduckgo_site\<close> has no handler, so its value is an exception or an optional URL.
\<close>

definition fetch_wikidata_site :: "env \<Rightarrow> string \<Rightarrow> string option \<times> request list" where
  "fetch_wikidata_site e name =
     (let query = wikidata_query name
      in (case wikidata_get e query of
            Inl err \<Rightarrow> None
          | Inr bindings \<Rightarrow> (case bindings of [] \<Rightarrow> None | website # _ \<Rightarrow> Some website),
          [WikidataQuery query]))"

text \<open>
  The loop over the rows of the infobox. A row without header cell, a header without
  "website", a row without anchor, an anchor that does not start with "http" and an
  anchor the heuristic rejects all go on to the next row.
\<close>

fun infobox_rows :: "env \<Rightarrow> string \<Rightarrow> row list \<Rightarrow> error + string option" where
  "infobox_rows e name [] = Inr None"
| "infobox_rows e name (r # rs) =
     (case th_text r of
        None \<Rightarrow> infobox_rows e name rs
      | Some header \<Rightarrow>
          if str_in ''website'' (lower header) then
            (case hrefs r of
               [] \<Rightarrow> infobox_rows e name rs
             | href # _ \<Rightarrow>
                 if startswith href ''http'' then
                   (case looks_official e href name of
                      Inl err \<Rightarrow> Inl err
                    | Inr ok \<Rightarrow> if ok then Inr (Some href) else infobox_rows e name rs)
                 else infobox_rows e name rs)
          else infobox_rows e name rs)"

definition fetch_wikipedia_site :: "env \<Rightarrow> string \<Rightarrow> string option \<times> request list" where
  "fetch_wikipedia_site e name =
     (case wikipedia_search e name of
        Inl err \<Rightarrow> (None, [WikipediaSearch name])
      | Inr [] \<Rightarrow> (None, [WikipediaSearch name])
      | Inr (pageid # _) \<Rightarrow>
          (case wikipedia_parse e pageid of
             Inl err \<Rightarrow> None
           | Inr None \<Rightarrow> None
           | Inr (Some rows) \<Rightarrow>
               (case infobox_rows e name rows of Inl err \<Rightarrow> None | Inr site \<Rightarrow> site),
           [WikipediaSearch name, WikipediaParse pageid]))"

text \<open>
  The loop over the search results; \<open>raised\<close> is the exception the provider raises once
  the results are used up, if any.
\<close>

fun ddg_results :: "env \<Rightarrow> string \<Rightarrow> result list \<Rightarrow> error option \<Rightarrow> error + string option" where
  "ddg_results e name [] raised = (case raised of None \<Rightarrow> Inr None | Some err \<Rightarrow> Inl err)"
| "ddg_results e name (r # rs) raised =
     (case r ''href'' of
        None \<Rightarrow> Inl KeyError
      | Some url \<Rightarrow>
          (case looks_official e url name of
             Inl err \<Rightarrow> Inl err
           | Inr ok \<Rightarrow> if ok then Inr (Some url) else ddg_results e name rs raised))"

definition fetch_duckduckgo_site ::
  "env \<Rightarrow> string \<Rightarrow> (error + string option) \<times> request list" where
  "fetch_duckduckgo_site e name =
     (let query = name @ '' official US website''
      in (case ddgs_text e query of (rs, raised) \<Rightarrow> ddg_results e name rs raised,
          [DuckDuckGoSearch query]))"

text \<open>
  The tests of the loop body of \<open>fetch_wikipedia_site\<close> on one row: the header cell names a
  website; the first anchor; the row returns its first anchor; the row is passed over and
  the loop goes on.
\<close>

definition website_row :: "row \<Rightarrow> bool" where
  "website_row r =
     (case th_text r of None \<Rightarrow> False | Some header \<Rightarrow> str_in ''website'' (lower header))"

definition first_anchor :: "row \<Rightarrow> string option" where
  "first_anchor r = (case hrefs r of [] \<Rightarrow> None | href # _ \<Rightarrow> Some href)"

definition row_accepted :: "env \<Rightarrow> string \<Rightarrow> row \<Rightarrow> string \<Rightarrow> bool" where
  "row_accepted e name r url =
     (website_row r \<and> first_anchor r = Some url \<and> startswith url ''http''
      \<and> looks_official e url name = Inr True)"

definition row_passed_over :: "env \<Rightarrow> string \<Rightarrow> row \<Rightarrow> bool" where
  "row_passed_over e name r =
     (\<not> website_row r
      \<or> (case first_anchor r of
            None \<Rightarrow> True
          | Some url \<Rightarrow> \<not> startswith url ''http'' \<or> looks_official e url name = Inr False))"

text \<open>
  The double quotes of a text that no backslash escapes: a backslash takes the character
  after it with it.
\<close>

fun raw_quotes :: "string \<Rightarrow> nat" where
  "raw_quotes [] = 0"
| "raw_quotes [c] = (if c = CHR 0x22 then 1 else 0)"
| "raw_quotes (c # d # cs) =
     (if c = CHR 0x5C then raw_quotes cs
      else (if c = CHR 0x22 then 1 else 0) + raw_quotes (d # cs))"

section \<open>The resolver\<close>

text \<open>\<open>if site:\<close> holds for a string that is not empty; \<open>None\<close> and \<open>""\<close> fail it.\<close>

fun truthy :: "string option \<Rightarrow> bool" where
  "truthy None = False"
| "truthy (Some s) = (s \<noteq> [])"

definition get_website ::
  "env \<Rightarrow> string \<Rightarrow> (error + string option \<times> string) \<times> request list" where
  "get_website e brand =
     (case fetch_wikidata_site e brand of (site1, log1) \<Rightarrow>
        if truthy site1 then (Inr (site1, ''wikidata''), log1)
        else
          (case fetch_wikipedia_site e brand of (site2, log2) \<Rightarrow>
             if truthy site2 then (Inr (site2, ''wikipedia''), log1 @ log2)
             else
               (case fetch_duckduckgo_site e brand of
                  (Inl err, log3) \<Rightarrow> (Inl err, log1 @ log2 @ log3)
                | (Inr site3, log3) \<Rightarrow>
                    if truthy site3 then (Inr (site3, ''duckduckgo''), log1 @ log2 @ log3)
                    else (Inr (None, ''not_found''), log1 @ log2 @ log3))))"

section \<open>Example surroundings\<close>

text \<open>No source knows anything.\<close>

definition quiet_env :: env where
  "quiet_env =
     \<lparr>bracketed_netloc_ok = (\<lambda>_. False),
      wikidata_get = (\<lambda>_. Inr []),
      wikipedia_search = (\<lambda>_. Inr []),
      wikipedia_parse = (\<lambda>_. Inr None),
      ddgs_text = (\<lambda>_. ([], None))\<rparr>"

text \<open>The search provider fails before it yields a result.\<close>

definition ddg_down_env :: env where
  "ddg_down_env = quiet_env\<lparr>ddgs_text := (\<lambda>_. ([], Some NetworkError))\<rparr>"

text \<open>
  An infobox with two "Website" rows: the first links to a social network, the second to
  the brand's site.
\<close>

definition two_rows_env :: env where
  "two_rows_env =
     quiet_env
       \<lparr>wikipedia_search := (\<lambda>_. Inr [7]),
        wikipedia_parse := (\<lambda>_. Inr (Some
          [\<lparr>th_text = Some ''Founded'', hrefs = []\<rparr>,
           \<lparr>th_text = Some ''Website'', hrefs = [''https://www.facebook.com/acme'', ''https://acme.example'']\<rparr>,
           \<lparr>th_text = Some ''Website'', hrefs = [''https://www.acme.com'']\<rparr>]))\<rparr>"

text \<open>The knowledge base and the encyclopedia both have a site for the brand.\<close>

definition both_hit_env :: env where
  "both_hit_env =
     quiet_env
       \<lparr>wikidata_get := (\<lambda>_. Inr [''https://acmetools.com'']),
        wikipedia_search := (\<lambda>_. Inr [7]),
        wikipedia_parse := (\<lambda>_. Inr (Some
          [\<lparr>th_text = Some ''Website'', hrefs = [''https://www.acmetools.org'']\<rparr>]))\<rparr>"

text \<open>
  The knowledge base answers with an empty string, and the infobox of the encyclopedia
  has the brand's site.
\<close>

definition empty_kb_enc_hit_env :: env where
  "empty_kb_enc_hit_env =
     quiet_env
       \<lparr>wikidata_get := (\<lambda>_. Inr ['''']),
        wikipedia_search := (\<lambda>_. Inr [7]),
        wikipedia_parse := (\<lambda>_. Inr (Some
          [\<lparr>th_text = Some ''Website'', hrefs = [''https://www.acme.com'']\<rparr>]))\<rparr>"

text \<open>The search provider yields one result whose address is the empty string.\<close>

definition empty_href_env :: env where
  "empty_href_env = quiet_env\<lparr>ddgs_text := (\<lambda>_. ([[''href'' \<mapsto> '''']], None))\<rparr>"

section \<open>Evaluation\<close>

lemma char_of_numeral [simp]:
  "char_of (numeral k :: nat) =
     Char (odd (numeral k :: nat)) (odd (numeral k div 2 :: nat)) (odd (numeral k div 4 :: nat))
       (odd (numeral k div 8 :: nat)) (odd (numeral k div 16 :: nat)) (odd (numeral k div 32 :: nat))
       (odd (numeral k div 64 :: nat)) (odd (numeral k div 128 :: nat))"
  by (simp add: char_of_def bit_iff_odd)

lemmas str_defs =
  lower_def lower_char_def is_upper_def startswith_def endswith_def slug_char_def
  re_sub_non_alnum_def brand_slug_def domain_def domain_nw_def

lemmas url_defs =
  urlparse_netloc_def strip_scheme_def splitnetloc_def c0_control_or_space_def
  unsafe_url_byte_def scheme_char_def ascii_alpha_def

lemmas eval_defs = looks_official_def url_defs str_defs EXCLUDE_DOMAINS_def

lemmas adapter_defs =
  fetch_wikidata_site_def fetch_wikipedia_site_def fetch_duckduckgo_site_def wikidata_query_def

section \<open>Facts about the string operations\<close>




lemma str_in_empty: "str_in [] s"
  by (induction s) (simp_all add: startswith_def)

section \<open>The URL parser\<close>






section \<open>The domain heuristic: what it returns\<close>

lemma looks_official_parsed:
  assumes "urlparse_netloc e url = Inr netloc"
  shows "looks_official e url brand =
     Inr (\<not> endswith (domain netloc) ''.ru''
          \<and> \<not> (\<exists>bad \<in> EXCLUDE_DOMAINS. endswith (domain_nw (domain netloc)) bad)
          \<and> str_in (take 6 (brand_slug brand)) (domain_nw (domain netloc)))"
  using assms by (simp add: looks_official_def)

text \<open>The only exception of \<open>_looks_official\<close> is the parser's.\<close>

lemma looks_official_raises:
  "looks_official e url brand = Inl err \<longleftrightarrow> urlparse_netloc e url = Inl err"
  by (auto simp: looks_official_def split: sum.splits)

text \<open>
  With an empty slug the substring test always succeeds: the heuristic accepts every
  parsed URL that passes the two rejections.
\<close>

lemma looks_official_empty_slug:
  assumes "brand_slug brand = []" and "urlparse_netloc e url = Inr netloc"
  shows "looks_official e url brand =
     Inr (\<not> endswith (domain netloc) ''.ru''
          \<and> \<not> (\<exists>bad \<in> EXCLUDE_DOMAINS. endswith (domain_nw (domain netloc)) bad))"
  using assms by (simp add: looks_official_parsed str_in_empty)

text \<open>
  C1: a brand name whose slug is empty should be rejected for every URL. The code has no
  such case: for the brand name \<open>!!!\<close>, whose slug is empty, it accepts
  \<open>https://example.com\<close>.
\<close>

theorem looks_official_empty_slug_accepts:
  "brand_slug ''!!!'' = [] \<and> looks_official quiet_env ''https://example.com'' ''!!!'' = Inr True"
  by (simp add: looks_official_def url_defs str_defs EXCLUDE_DOMAINS_def)















section \<open>The query sent to the knowledge base\<close>

lemma raw_quotes_Cons:
  "c \<noteq> CHR 0x5C \<Longrightarrow> raw_quotes (c # cs) = (if c = CHR 0x22 then 1 else 0) + raw_quotes cs"
  by (cases cs) simp_all

lemma raw_quotes_append:
  "CHR 0x5C \<notin> set xs \<Longrightarrow> raw_quotes (xs @ ys) = count_list xs (CHR 0x22) + raw_quotes ys"
proof (induction xs)
  case Nil
  then show ?case by simp
next
  case (Cons c xs)
  then have "c \<noteq> CHR 0x5C" and "CHR 0x5C \<notin> set xs" by auto
  with Cons.IH show ?case by (simp add: raw_quotes_Cons)
qed

lemma raw_quotes_query_head:
  "CHR 0x5C \<notin> set query_head \<and> count_list query_head (CHR 0x22) = 1"
  by (simp add: query_head_def)

lemma raw_quotes_query_tail: "raw_quotes query_tail = 1"
  by (simp add: query_tail_def)

text \<open>
  C4, as amended: \<open>fetch_wikidata_site\<close> does not escape the brand name. The one request it
  sends carries the fixed head of the query, the name unchanged and the fixed tail; so in a
  name without backslash every double quote stands unescaped in the query, next to the two
  that delimit the label.
\<close>

theorem wikidata_query_verbatim:
  "snd (fetch_wikidata_site e name) = [WikidataQuery (query_head @ name @ query_tail)]
   \<and> (CHR 0x5C \<notin> set name \<longrightarrow>
        raw_quotes (query_head @ name @ query_tail) = 2 + count_list name (CHR 0x22))"
proof -
  have sent: "snd (fetch_wikidata_site e name) = [WikidataQuery (query_head @ name @ query_tail)]"
    by (simp add: fetch_wikidata_site_def wikidata_query_def Let_def)
  have raw: "raw_quotes (query_head @ name @ query_tail) = 2 + count_list name (CHR 0x22)"
    if "CHR 0x5C \<notin> set name"
    using that
    by (simp add: raw_quotes_append raw_quotes_query_head raw_quotes_query_tail)
  from sent raw show ?thesis by blast
qed

theorem wikidata_query_verbatim_witness:
  "CHR 0x5C \<notin> set ''Acme Tools''
   \<and> raw_quotes (query_head @ ''Acme Tools'' @ query_tail) = 2"
proof -
  have n: "CHR 0x5C \<notin> set ''Acme Tools''" by simp
  have c: "count_list ''Acme Tools'' (CHR 0x22) = 0" by simp
  from n wikidata_query_verbatim [of quiet_env "''Acme Tools''", THEN conjunct2]
  have "raw_quotes (query_head @ ''Acme Tools'' @ query_tail) = 2 + count_list ''Acme Tools'' (CHR 0x22)"
    by blast
  with c n show ?thesis by simp
qed

text \<open>
  The claim as stated fails: the double quote of the name \<open>A"B\<close> is in the query as it
  is, a third unescaped double quote.
\<close>

theorem wikidata_query_quote_counterexample:
  \<open>str_in ''rdfs:label "A"B"@en'' (wikidata_query ''A"B'')
   \<and> raw_quotes (wikidata_query ''A"B'') = 3
   \<and> raw_quotes (wikidata_query ''AB'') = 2\<close>
  by (simp add: wikidata_query_def query_head_def query_tail_def startswith_def)

section \<open>The rows of the infobox\<close>

text \<open>A row is passed over, returns its first anchor, or makes the heuristic raise.\<close>

lemma row_cases:
  obtains (passed) "row_passed_over e name r"
  | (accepted) url where "row_accepted e name r url"
  | (raised) url err where "website_row r" "first_anchor r = Some url"
      "startswith url ''http''" "looks_official e url name = Inl err"
proof (cases "website_row r")
  case False
  then show ?thesis using passed by (simp add: row_passed_over_def)
next
  case w: True
  show ?thesis
  proof (cases "first_anchor r")
    case None
    then show ?thesis using passed by (simp add: row_passed_over_def)
  next
    case (Some url)
    show ?thesis
    proof (cases "startswith url ''http''")
      case False
      with Some show ?thesis using passed by (simp add: row_passed_over_def)
    next
      case h: True
      show ?thesis
      proof (cases "looks_official e url name")
        case (Inl err)
        with w Some h show ?thesis using raised by blast
      next
        case (Inr ok)
        show ?thesis
        proof (cases ok)
          case True
          with w Some h Inr show ?thesis using accepted by (simp add: row_accepted_def)
        next
          case False
          with Some Inr show ?thesis using passed by (simp add: row_passed_over_def)
        qed
      qed
    qed
  qed
qed

lemma infobox_rows_passed_over:
  "row_passed_over e name r \<Longrightarrow> infobox_rows e name (r # rs) = infobox_rows e name rs"
  by (auto simp: row_passed_over_def website_row_def first_anchor_def
      split: option.splits list.splits)

lemma infobox_rows_accepted:
  "row_accepted e name r url \<Longrightarrow> infobox_rows e name (r # rs) = Inr (Some url)"
  by (auto simp: row_accepted_def website_row_def first_anchor_def
      split: option.splits list.splits)

lemma infobox_rows_raised:
  assumes "website_row r" "first_anchor r = Some url" "startswith url ''http''"
    "looks_official e url name = Inl err"
  shows "infobox_rows e name (r # rs) = Inl err"
  using assms
  by (auto simp: website_row_def first_anchor_def split: option.splits list.splits)

lemma infobox_rows_found:
  assumes "\<forall>x \<in> set before. row_passed_over e name x" and "row_accepted e name r url"
  shows "infobox_rows e name (before @ r # after) = Inr (Some url)"
  using assms
proof (induction before)
  case Nil
  then show ?case by (simp add: infobox_rows_accepted del: infobox_rows.simps)
next
  case (Cons b before)
  then show ?case by (simp add: infobox_rows_passed_over del: infobox_rows.simps)
qed

lemma infobox_rows_Some:
  assumes "infobox_rows e name rows = Inr (Some url)"
  shows "\<exists>before r after. rows = before @ r # after
           \<and> (\<forall>x \<in> set before. row_passed_over e name x) \<and> row_accepted e name r url"
  using assms
proof (induction rows)
  case Nil
  then show ?case by simp
next
  case (Cons r rows)
  show ?case
  proof (cases e name r rule: row_cases)
    case passed
    with Cons.prems have "infobox_rows e name rows = Inr (Some url)"
      by (simp add: infobox_rows_passed_over del: infobox_rows.simps)
    then obtain before r' after where
      d: "rows = before @ r' # after" "\<forall>x \<in> set before. row_passed_over e name x"
        "row_accepted e name r' url"
      using Cons.IH by blast
    from d passed have "r # rows = (r # before) @ r' # after"
      and "\<forall>x \<in> set (r # before). row_passed_over e name x"
      by simp_all
    with d(3) show ?thesis by blast
  next
    case (accepted url')
    with Cons.prems have "url' = url" by (simp add: infobox_rows_accepted del: infobox_rows.simps)
    with accepted have "r # rows = [] @ r # rows" and "row_accepted e name r url" by simp_all
    then show ?thesis by fastforce
  next
    case (raised url' err)
    then have "infobox_rows e name (r # rows) = Inl err" by (rule infobox_rows_raised)
    with Cons.prems show ?thesis by simp
  qed
qed

text \<open>
  C3, as amended: in a row whose header contains "website" only the first anchor counts.
  When its address does not start with "http" or the heuristic rejects it, the row is
  passed over, whatever its other anchors, and the loop goes on to the later rows. The
  source returns the first anchor of the first row that passes both tests after rows that
  were all passed over, and nothing otherwise.
\<close>

theorem fetch_wikipedia_site_first_passing_row:
  assumes "wikipedia_search e name = Inr (pageid # others)"
    and "wikipedia_parse e pageid = Inr (Some rows)"
  shows "fst (fetch_wikipedia_site e name) = Some url \<longleftrightarrow>
     (\<exists>before r after. rows = before @ r # after
        \<and> (\<forall>x \<in> set before. row_passed_over e name x) \<and> row_accepted e name r url)"
proof
  assume "fst (fetch_wikipedia_site e name) = Some url"
  with assms have "infobox_rows e name rows = Inr (Some url)"
    by (simp add: fetch_wikipedia_site_def split: sum.splits)
  then show "\<exists>before r after. rows = before @ r # after
        \<and> (\<forall>x \<in> set before. row_passed_over e name x) \<and> row_accepted e name r url"
    by (rule infobox_rows_Some)
next
  assume "\<exists>before r after. rows = before @ r # after
        \<and> (\<forall>x \<in> set before. row_passed_over e name x) \<and> row_accepted e name r url"
  then have "infobox_rows e name rows = Inr (Some url)"
    using infobox_rows_found by blast
  with assms show "fst (fetch_wikipedia_site e name) = Some url"
    by (simp add: fetch_wikipedia_site_def)
qed

theorem fetch_wikipedia_site_first_passing_row_witness:
  "wikipedia_search two_rows_env ''Acme'' = Inr [7]
   \<and> row_passed_over two_rows_env ''Acme''
        \<lparr>th_text = Some ''Website'', hrefs = [''https://www.facebook.com/acme'', ''https://acme.example'']\<rparr>
   \<and> row_accepted two_rows_env ''Acme''
        \<lparr>th_text = Some ''Website'', hrefs = [''https://www.acme.com'']\<rparr> ''https://www.acme.com''
   \<and> fst (fetch_wikipedia_site two_rows_env ''Acme'') = Some ''https://www.acme.com''"
proof -
  let ?r1 = "\<lparr>th_text = Some ''Founded'', hrefs = []\<rparr>"
  let ?r2 = "\<lparr>th_text = Some ''Website'',
    hrefs = [''https://www.facebook.com/acme'', ''https://acme.example'']\<rparr>"
  let ?r3 = "\<lparr>th_text = Some ''Website'', hrefs = [''https://www.acme.com'']\<rparr>"
  have s: "wikipedia_search two_rows_env ''Acme'' = Inr [7]"
    by (simp add: two_rows_env_def)
  have p: "wikipedia_parse two_rows_env 7 = Inr (Some [?r1, ?r2, ?r3])"
    by (simp add: two_rows_env_def)
  have o1: "row_passed_over two_rows_env ''Acme'' ?r1"
    by (simp add: row_passed_over_def website_row_def str_defs)
  have o2: "row_passed_over two_rows_env ''Acme'' ?r2"
    by (simp add: row_passed_over_def website_row_def first_anchor_def two_rows_env_def
        quiet_env_def eval_defs)
  have a3: "row_accepted two_rows_env ''Acme'' ?r3 ''https://www.acme.com''"
    by (simp add: row_accepted_def website_row_def first_anchor_def two_rows_env_def
        quiet_env_def eval_defs)
  have d: "\<exists>before r after. [?r1, ?r2, ?r3] = before @ r # after
        \<and> (\<forall>x \<in> set before. row_passed_over two_rows_env ''Acme'' x)
        \<and> row_accepted two_rows_env ''Acme'' r ''https://www.acme.com''"
  proof (intro exI conjI)
    show "[?r1, ?r2, ?r3] = [?r1, ?r2] @ ?r3 # []" by simp
    show "\<forall>x \<in> set [?r1, ?r2]. row_passed_over two_rows_env ''Acme'' x"
      using o1 o2 by simp
    show "row_accepted two_rows_env ''Acme'' ?r3 ''https://www.acme.com''" by (rule a3)
  qed
  have "fst (fetch_wikipedia_site two_rows_env ''Acme'') = Some ''https://www.acme.com''"
    using fetch_wikipedia_site_first_passing_row [OF s p, of "''https://www.acme.com''"] d
    by blast
  with s o2 a3 show ?thesis by blast
qed

text \<open>
  The claim as stated fails: the first "Website" row of this infobox has a first anchor
  that the heuristic rejects, and the source returns the anchor of the second "Website" row.
\<close>

theorem fetch_wikipedia_site_later_row_counterexample:
  "website_row \<lparr>th_text = Some ''Website'', hrefs = [''https://www.facebook.com/acme'', ''https://acme.example'']\<rparr>
   \<and> looks_official two_rows_env ''https://www.facebook.com/acme'' ''Acme'' = Inr False
   \<and> fst (fetch_wikipedia_site two_rows_env ''Acme'') = Some ''https://www.acme.com''"
  by (simp add: website_row_def fetch_wikipedia_site_def two_rows_env_def quiet_env_def eval_defs)

text \<open>What the encyclopedia returns starts with "http", so it is never the empty string.\<close>

lemma fetch_wikipedia_site_Some:
  assumes "fst (fetch_wikipedia_site e name) = Some url"
  shows "startswith url ''http'' \<and> looks_official e url name = Inr True"
proof -
  from assms obtain rows where "infobox_rows e name rows = Inr (Some url)"
    by (auto simp: fetch_wikipedia_site_def split: sum.splits list.splits option.splits)
  then obtain r where "row_accepted e name r url"
    using infobox_rows_Some by blast
  then show ?thesis by (simp add: row_accepted_def)
qed

lemma fetch_wikipedia_site_truthy:
  "truthy (fst (fetch_wikipedia_site e name)) \<longleftrightarrow> fst (fetch_wikipedia_site e name) \<noteq> None"
proof (cases "fst (fetch_wikipedia_site e name)")
  case None
  then show ?thesis by simp
next
  case (Some url)
  then have "startswith url ''http''" using fetch_wikipedia_site_Some by blast
  then have "url \<noteq> []" by (auto simp: startswith_def)
  with Some show ?thesis by simp
qed

section \<open>The requests of the three sources\<close>

lemma fetch_wikidata_site_log:
  "snd (fetch_wikidata_site e brand) = [WikidataQuery (wikidata_query brand)]"
  by (simp add: fetch_wikidata_site_def Let_def)

lemma fetch_wikipedia_site_log:
  "snd (fetch_wikipedia_site e brand) = [WikipediaSearch brand]
   \<or> (\<exists>pageid. snd (fetch_wikipedia_site e brand) = [WikipediaSearch brand, WikipediaParse pageid])"
  by (simp add: fetch_wikipedia_site_def split: sum.splits list.splits)

lemma fetch_duckduckgo_site_log:
  "snd (fetch_duckduckgo_site e brand) = [DuckDuckGoSearch (brand @ '' official US website'')]"
  by (simp add: fetch_duckduckgo_site_def Let_def)

lemma wikipedia_log_no_other:
  "WikidataQuery q \<notin> set (snd (fetch_wikipedia_site e brand))
   \<and> DuckDuckGoSearch q \<notin> set (snd (fetch_wikipedia_site e brand))"
  using fetch_wikipedia_site_log [of e brand] by auto

section \<open>The search provider fails\<close>

lemma fetch_duckduckgo_site_raises:
  assumes "ddgs_text e (name @ '' official US website'') = ([], Some err)"
  shows "fst (fetch_duckduckgo_site e name) = Inl err"
  using assms by (simp add: fetch_duckduckgo_site_def)

text \<open>
  C2: an error of the search provider should leave the source without a candidate and the
  resolver with a result. \<open>fetch_duckduckgo_site\<close> has no handler, unlike the two other
  sources: when the provider raises, the exception leaves the source and \<open>get_website\<close>.
\<close>

theorem get_website_provider_error_propagates:
  "fst (fetch_duckduckgo_site ddg_down_env ''Acme'') = Inl NetworkError
   \<and> fst (get_website ddg_down_env ''Acme'') = Inl NetworkError"
  by (simp add: get_website_def adapter_defs ddg_down_env_def quiet_env_def)

section \<open>The resolver: order, tags and empty strings\<close>

lemma truthy_iff: "truthy s \<longleftrightarrow> (\<exists>url. s = Some url \<and> url \<noteq> [])"
  by (cases s) simp_all

text \<open>The resolver in terms of what the three sources return.\<close>

lemma get_website_cases:
  "get_website e brand =
    (if truthy (fst (fetch_wikidata_site e brand))
     then (Inr (fst (fetch_wikidata_site e brand), ''wikidata''), snd (fetch_wikidata_site e brand))
     else if truthy (fst (fetch_wikipedia_site e brand))
     then (Inr (fst (fetch_wikipedia_site e brand), ''wikipedia''),
           snd (fetch_wikidata_site e brand) @ snd (fetch_wikipedia_site e brand))
     else (case fst (fetch_duckduckgo_site e brand) of
             Inl err \<Rightarrow> Inl err
           | Inr site \<Rightarrow> if truthy site then Inr (site, ''duckduckgo'') else Inr (None, ''not_found''),
           snd (fetch_wikidata_site e brand) @ snd (fetch_wikipedia_site e brand)
             @ snd (fetch_duckduckgo_site e brand)))"
  by (simp add: get_website_def split: prod.splits sum.splits)

text \<open>
  C5: the sources are asked in the order knowledge base, encyclopedia, web search, and the
  first hit is returned with its tag. A URL of the knowledge base is the result, tagged
  \<open>wikidata\<close>, and the one request sent is the query to the knowledge base. Without it, a
  URL of the encyclopedia is the result, tagged \<open>wikipedia\<close>; the requests are the query
  and then those of the encyclopedia, none to the web search. Without both, the web search
  is asked last, and its URL is the result, tagged \<open>duckduckgo\<close>.
\<close>

theorem get_website_priority:
  "(fst (fetch_wikidata_site e brand) = Some url \<and> url \<noteq> [] \<longrightarrow>
      get_website e brand = (Inr (Some url, ''wikidata''), [WikidataQuery (wikidata_query brand)]))
   \<and> (\<not> truthy (fst (fetch_wikidata_site e brand)) \<and> fst (fetch_wikipedia_site e brand) = Some url \<longrightarrow>
      fst (get_website e brand) = Inr (Some url, ''wikipedia'')
      \<and> snd (get_website e brand) = WikidataQuery (wikidata_query brand) # snd (fetch_wikipedia_site e brand)
      \<and> (\<forall>q. DuckDuckGoSearch q \<notin> set (snd (get_website e brand))))
   \<and> (\<not> truthy (fst (fetch_wikidata_site e brand)) \<and> fst (fetch_wikipedia_site e brand) = None \<longrightarrow>
      snd (get_website e brand) =
        WikidataQuery (wikidata_query brand) # snd (fetch_wikipedia_site e brand)
          @ [DuckDuckGoSearch (brand @ '' official US website'')]
      \<and> (fst (fetch_duckduckgo_site e brand) = Inr (Some url) \<and> url \<noteq> [] \<longrightarrow>
            fst (get_website e brand) = Inr (Some url, ''duckduckgo'')))"
proof (intro conjI impI)
  assume "fst (fetch_wikidata_site e brand) = Some url \<and> url \<noteq> []"
  then show "get_website e brand = (Inr (Some url, ''wikidata''), [WikidataQuery (wikidata_query brand)])"
    by (simp add: get_website_cases fetch_wikidata_site_log)
next
  assume a: "\<not> truthy (fst (fetch_wikidata_site e brand)) \<and> fst (fetch_wikipedia_site e brand) = Some url"
  then have "fst (fetch_wikipedia_site e brand) \<noteq> None" by simp
  then have t: "truthy (fst (fetch_wikipedia_site e brand))"
    using fetch_wikipedia_site_truthy by blast
  from a t show "fst (get_website e brand) = Inr (Some url, ''wikipedia'')"
    by (simp add: get_website_cases)
  from a t show l: "snd (get_website e brand) = WikidataQuery (wikidata_query brand) # snd (fetch_wikipedia_site e brand)"
    by (simp add: get_website_cases fetch_wikidata_site_log)
  show "\<forall>q. DuckDuckGoSearch q \<notin> set (snd (get_website e brand))"
    using wikipedia_log_no_other [of _ e brand] by (simp add: l)
next
  assume a: "\<not> truthy (fst (fetch_wikidata_site e brand)) \<and> fst (fetch_wikipedia_site e brand) = None"
  then show "snd (get_website e brand) =
        WikidataQuery (wikidata_query brand) # snd (fetch_wikipedia_site e brand)
          @ [DuckDuckGoSearch (brand @ '' official US website'')]"
    by (simp add: get_website_cases fetch_wikidata_site_log fetch_duckduckgo_site_log)
  assume "fst (fetch_duckduckgo_site e brand) = Inr (Some url) \<and> url \<noteq> []"
  with a show "fst (get_website e brand) = Inr (Some url, ''duckduckgo'')"
    by (simp add: get_website_cases)
qed

theorem get_website_priority_witness:
  "fst (fetch_wikidata_site both_hit_env ''Acme Tools'') = Some ''https://acmetools.com''
   \<and> fst (fetch_wikipedia_site both_hit_env ''Acme Tools'') = Some ''https://www.acmetools.org''
   \<and> get_website both_hit_env ''Acme Tools'' =
       (Inr (Some ''https://acmetools.com'', ''wikidata''), [WikidataQuery (wikidata_query ''Acme Tools'')])"
proof -
  have kb: "fst (fetch_wikidata_site both_hit_env ''Acme Tools'') = Some ''https://acmetools.com''"
    by (simp add: fetch_wikidata_site_def both_hit_env_def quiet_env_def Let_def)
  have enc: "fst (fetch_wikipedia_site both_hit_env ''Acme Tools'') = Some ''https://www.acmetools.org''"
    by (simp add: fetch_wikipedia_site_def both_hit_env_def quiet_env_def eval_defs)
  have ne: "''https://acmetools.com'' \<noteq> []" by simp
  from kb ne
    get_website_priority [of both_hit_env "''Acme Tools''" "''https://acmetools.com''", THEN conjunct1]
  have "get_website both_hit_env ''Acme Tools'' =
       (Inr (Some ''https://acmetools.com'', ''wikidata''), [WikidataQuery (wikidata_query ''Acme Tools'')])"
    by blast
  with kb enc show ?thesis by blast
qed

text \<open>
  C6: in a result of the resolver the URL is absent exactly when the tag is
  \<open>not_found\<close>; the tag is one of the four, and a tag that names a source comes with what
  that source returned. When the three sources return nothing the result is
  \<open>(None, "not_found")\<close>.
\<close>

theorem get_website_not_found_iff:
  "(get_website e brand = (Inr (site, tag), log) \<longrightarrow>
      (site = None \<longleftrightarrow> tag = ''not_found'')
      \<and> tag \<in> {''wikidata'', ''wikipedia'', ''duckduckgo'', ''not_found''}
      \<and> (tag = ''wikidata'' \<longrightarrow> fst (fetch_wikidata_site e brand) = site)
      \<and> (tag = ''wikipedia'' \<longrightarrow> fst (fetch_wikipedia_site e brand) = site)
      \<and> (tag = ''duckduckgo'' \<longrightarrow> fst (fetch_duckduckgo_site e brand) = Inr site))
   \<and> (fst (fetch_wikidata_site e brand) = None \<and> fst (fetch_wikipedia_site e brand) = None
        \<and> fst (fetch_duckduckgo_site e brand) = Inr None \<longrightarrow>
      fst (get_website e brand) = Inr (None, ''not_found''))"
proof (rule conjI)
  show "get_website e brand = (Inr (site, tag), log) \<longrightarrow>
      (site = None \<longleftrightarrow> tag = ''not_found'')
      \<and> tag \<in> {''wikidata'', ''wikipedia'', ''duckduckgo'', ''not_found''}
      \<and> (tag = ''wikidata'' \<longrightarrow> fst (fetch_wikidata_site e brand) = site)
      \<and> (tag = ''wikipedia'' \<longrightarrow> fst (fetch_wikipedia_site e brand) = site)
      \<and> (tag = ''duckduckgo'' \<longrightarrow> fst (fetch_duckduckgo_site e brand) = Inr site)"
  proof (rule impI)
    assume r: "get_website e brand = (Inr (site, tag), log)"
    consider (kb) "truthy (fst (fetch_wikidata_site e brand))"
      | (enc) "\<not> truthy (fst (fetch_wikidata_site e brand))"
          "truthy (fst (fetch_wikipedia_site e brand))"
      | (ws) s where "\<not> truthy (fst (fetch_wikidata_site e brand))"
          "\<not> truthy (fst (fetch_wikipedia_site e brand))"
          "fst (fetch_duckduckgo_site e brand) = Inr s" "truthy s"
      | (nf) s where "\<not> truthy (fst (fetch_wikidata_site e brand))"
          "\<not> truthy (fst (fetch_wikipedia_site e brand))"
          "fst (fetch_duckduckgo_site e brand) = Inr s" "\<not> truthy s"
      | (exn) err where "\<not> truthy (fst (fetch_wikidata_site e brand))"
          "\<not> truthy (fst (fetch_wikipedia_site e brand))"
          "fst (fetch_duckduckgo_site e brand) = Inl err"
      by (cases "fst (fetch_duckduckgo_site e brand)") auto
    then show "(site = None \<longleftrightarrow> tag = ''not_found'')
      \<and> tag \<in> {''wikidata'', ''wikipedia'', ''duckduckgo'', ''not_found''}
      \<and> (tag = ''wikidata'' \<longrightarrow> fst (fetch_wikidata_site e brand) = site)
      \<and> (tag = ''wikipedia'' \<longrightarrow> fst (fetch_wikipedia_site e brand) = site)
      \<and> (tag = ''duckduckgo'' \<longrightarrow> fst (fetch_duckduckgo_site e brand) = Inr site)"
    proof cases
      case kb
      with r have "site = fst (fetch_wikidata_site e brand)" "tag = ''wikidata''"
        by (simp_all add: get_website_cases)
      with kb show ?thesis by (auto simp: truthy_iff)
    next
      case enc
      with r have "site = fst (fetch_wikipedia_site e brand)" "tag = ''wikipedia''"
        by (simp_all add: get_website_cases)
      with enc show ?thesis by (auto simp: truthy_iff)
    next
      case (ws s)
      with r have "site = s" "tag = ''duckduckgo''"
        by (simp_all add: get_website_cases)
      with ws show ?thesis by (auto simp: truthy_iff)
    next
      case (nf s)
      with r have "site = None" "tag = ''not_found''"
        by (simp_all add: get_website_cases)
      then show ?thesis by simp
    next
      case (exn err)
      with r show ?thesis by (simp add: get_website_cases)
    qed
  qed
next
  show "fst (fetch_wikidata_site e brand) = None \<and> fst (fetch_wikipedia_site e brand) = None
        \<and> fst (fetch_duckduckgo_site e brand) = Inr None \<longrightarrow>
      fst (get_website e brand) = Inr (None, ''not_found'')"
    by (simp add: get_website_cases)
qed

theorem get_website_not_found_iff_witness:
  "fst (fetch_wikidata_site quiet_env ''Acme'') = None
   \<and> fst (fetch_wikipedia_site quiet_env ''Acme'') = None
   \<and> fst (fetch_duckduckgo_site quiet_env ''Acme'') = Inr None
   \<and> fst (get_website quiet_env ''Acme'') = Inr (None, ''not_found'')"
proof -
  have kb: "fst (fetch_wikidata_site quiet_env ''Acme'') = None"
    by (simp add: fetch_wikidata_site_def quiet_env_def Let_def)
  have enc: "fst (fetch_wikipedia_site quiet_env ''Acme'') = None"
    by (simp add: fetch_wikipedia_site_def quiet_env_def)
  have ws: "fst (fetch_duckduckgo_site quiet_env ''Acme'') = Inr None"
    by (simp add: fetch_duckduckgo_site_def quiet_env_def Let_def)
  from kb enc ws
    get_website_not_found_iff [of quiet_env "''Acme''" None "''not_found''" "[]", THEN conjunct2]
  have "fst (get_website quiet_env ''Acme'') = Inr (None, ''not_found'')"
    by blast
  with kb enc ws show ?thesis by blast
qed

lemma fetch_wikipedia_site_log_head:
  "\<exists>rest. snd (fetch_wikipedia_site e brand) = WikipediaSearch brand # rest"
  using fetch_wikipedia_site_log [of e brand] by auto

text \<open>
  C10: the resolver takes an empty string from a source for no answer and goes on to the
  next source. When the knowledge base returns the empty string, the encyclopedia is
  asked next, and the result is the encyclopedia's URL tagged \<open>wikipedia\<close>, or without it
  the web search's URL tagged \<open>duckduckgo\<close>, or \<open>(None, "not_found")\<close>. When the web search
  returns the empty string after the two other sources gave nothing, the result is
  \<open>(None, "not_found")\<close>. The encyclopedia never returns the empty string. So a result
  whose tag is not \<open>not_found\<close> has a URL that is not empty.
\<close>

theorem get_website_empty_string_is_absent:
  "(get_website e brand = (Inr (site, tag), log) \<and> tag \<noteq> ''not_found'' \<longrightarrow>
      (\<exists>url. site = Some url \<and> url \<noteq> []))
   \<and> (fst (fetch_wikidata_site e brand) = Some [] \<longrightarrow>
        (\<exists>rest. snd (get_website e brand) =
           WikidataQuery (wikidata_query brand) # WikipediaSearch brand # rest)
        \<and> (fst (fetch_wikipedia_site e brand) = Some url \<longrightarrow>
              fst (get_website e brand) = Inr (Some url, ''wikipedia''))
        \<and> (fst (fetch_wikipedia_site e brand) = None
              \<and> fst (fetch_duckduckgo_site e brand) = Inr (Some url) \<and> url \<noteq> [] \<longrightarrow>
              fst (get_website e brand) = Inr (Some url, ''duckduckgo''))
        \<and> (fst (fetch_wikipedia_site e brand) = None
              \<and> fst (fetch_duckduckgo_site e brand) = Inr None \<longrightarrow>
              fst (get_website e brand) = Inr (None, ''not_found'')))
   \<and> fst (fetch_wikipedia_site e brand) \<noteq> Some []
   \<and> (\<not> truthy (fst (fetch_wikidata_site e brand)) \<and> fst (fetch_wikipedia_site e brand) = None
        \<and> fst (fetch_duckduckgo_site e brand) = Inr (Some []) \<longrightarrow>
        get_website e brand =
          (Inr (None, ''not_found''),
           WikidataQuery (wikidata_query brand) # snd (fetch_wikipedia_site e brand)
             @ [DuckDuckGoSearch (brand @ '' official US website'')]))"
proof (intro conjI)
  show "get_website e brand = (Inr (site, tag), log) \<and> tag \<noteq> ''not_found'' \<longrightarrow>
      (\<exists>url. site = Some url \<and> url \<noteq> [])"
  proof (rule impI)
    assume r: "get_website e brand = (Inr (site, tag), log) \<and> tag \<noteq> ''not_found''"
    show "\<exists>url. site = Some url \<and> url \<noteq> []"
    proof (cases "truthy (fst (fetch_wikidata_site e brand))")
      case True
      with r have "site = fst (fetch_wikidata_site e brand)" by (simp add: get_website_cases)
      with True show ?thesis by (simp add: truthy_iff)
    next
      case kb: False
      show ?thesis
      proof (cases "truthy (fst (fetch_wikipedia_site e brand))")
        case True
        with kb r have "site = fst (fetch_wikipedia_site e brand)" by (simp add: get_website_cases)
        with True show ?thesis by (simp add: truthy_iff)
      next
        case enc: False
        show ?thesis
        proof (cases "fst (fetch_duckduckgo_site e brand)")
          case (Inl err)
          with kb enc r show ?thesis by (simp add: get_website_cases)
        next
          case (Inr s)
          show ?thesis
          proof (cases "truthy s")
            case True
            with Inr kb enc r have "site = s" by (simp add: get_website_cases)
            with True show ?thesis by (simp add: truthy_iff)
          next
            case False
            with Inr kb enc r have "tag = ''not_found''" by (simp add: get_website_cases)
            with r show ?thesis by simp
          qed
        qed
      qed
    qed
  qed
next
  show "fst (fetch_wikidata_site e brand) = Some [] \<longrightarrow>
        (\<exists>rest. snd (get_website e brand) =
           WikidataQuery (wikidata_query brand) # WikipediaSearch brand # rest)
        \<and> (fst (fetch_wikipedia_site e brand) = Some url \<longrightarrow>
              fst (get_website e brand) = Inr (Some url, ''wikipedia''))
        \<and> (fst (fetch_wikipedia_site e brand) = None
              \<and> fst (fetch_duckduckgo_site e brand) = Inr (Some url) \<and> url \<noteq> [] \<longrightarrow>
              fst (get_website e brand) = Inr (Some url, ''duckduckgo''))
        \<and> (fst (fetch_wikipedia_site e brand) = None
              \<and> fst (fetch_duckduckgo_site e brand) = Inr None \<longrightarrow>
              fst (get_website e brand) = Inr (None, ''not_found''))"
  proof (intro impI conjI)
    assume kb: "fst (fetch_wikidata_site e brand) = Some []"
    obtain rest where w: "snd (fetch_wikipedia_site e brand) = WikipediaSearch brand # rest"
      using fetch_wikipedia_site_log_head by blast
    show "\<exists>rest. snd (get_website e brand) =
           WikidataQuery (wikidata_query brand) # WikipediaSearch brand # rest"
      using kb w by (simp add: get_website_cases fetch_wikidata_site_log)
    show "fst (get_website e brand) = Inr (Some url, ''wikipedia'')"
      if enc: "fst (fetch_wikipedia_site e brand) = Some url"
    proof -
      from enc have "fst (fetch_wikipedia_site e brand) \<noteq> None" by simp
      then have "truthy (fst (fetch_wikipedia_site e brand))"
        using fetch_wikipedia_site_truthy by blast
      with kb enc show ?thesis by (simp add: get_website_cases)
    qed
    show "fst (get_website e brand) = Inr (Some url, ''duckduckgo'')"
      if "fst (fetch_wikipedia_site e brand) = None
              \<and> fst (fetch_duckduckgo_site e brand) = Inr (Some url) \<and> url \<noteq> []"
      using kb that by (simp add: get_website_cases)
    show "fst (get_website e brand) = Inr (None, ''not_found'')"
      if "fst (fetch_wikipedia_site e brand) = None
              \<and> fst (fetch_duckduckgo_site e brand) = Inr None"
      using kb that by (simp add: get_website_cases)
  qed
next
  show "fst (fetch_wikipedia_site e brand) \<noteq> Some []"
    using fetch_wikipedia_site_Some [of e brand "[]"] by (auto simp: startswith_def)
next
  show "\<not> truthy (fst (fetch_wikidata_site e brand)) \<and> fst (fetch_wikipedia_site e brand) = None
        \<and> fst (fetch_duckduckgo_site e brand) = Inr (Some []) \<longrightarrow>
        get_website e brand =
          (Inr (None, ''not_found''),
           WikidataQuery (wikidata_query brand) # snd (fetch_wikipedia_site e brand)
             @ [DuckDuckGoSearch (brand @ '' official US website'')])"
    by (simp add: get_website_cases fetch_wikidata_site_log fetch_duckduckgo_site_log)
qed

theorem get_website_empty_string_is_absent_witness:
  "fst (fetch_wikidata_site empty_kb_enc_hit_env ''Acme'') = Some ''''
   \<and> fst (fetch_wikipedia_site empty_kb_enc_hit_env ''Acme'') = Some ''https://www.acme.com''
   \<and> fst (get_website empty_kb_enc_hit_env ''Acme'') = Inr (Some ''https://www.acme.com'', ''wikipedia'')
   \<and> fst (fetch_duckduckgo_site empty_href_env ''!!!'') = Inr (Some '''')
   \<and> get_website empty_href_env ''!!!'' =
       (Inr (None, ''not_found''),
        [WikidataQuery (wikidata_query ''!!!''), WikipediaSearch ''!!!'',
         DuckDuckGoSearch ''!!! official US website''])"
proof -
  note th = get_website_empty_string_is_absent [of _ _ None "''not_found''" "[]"]
  have kb: "fst (fetch_wikidata_site empty_kb_enc_hit_env ''Acme'') = Some ''''"
    by (simp add: fetch_wikidata_site_def empty_kb_enc_hit_env_def quiet_env_def Let_def)
  have enc: "fst (fetch_wikipedia_site empty_kb_enc_hit_env ''Acme'') = Some ''https://www.acme.com''"
    by (simp add: fetch_wikipedia_site_def empty_kb_enc_hit_env_def quiet_env_def eval_defs)
  have a: "fst (get_website empty_kb_enc_hit_env ''Acme'') = Inr (Some ''https://www.acme.com'', ''wikipedia'')"
    using th [of empty_kb_enc_hit_env "''Acme''" "''https://www.acme.com''", THEN conjunct2,
        THEN conjunct1, rule_format, OF kb, THEN conjunct2, THEN conjunct1, rule_format, OF enc] .
  have kb2: "\<not> truthy (fst (fetch_wikidata_site empty_href_env ''!!!''))"
    by (simp add: fetch_wikidata_site_def empty_href_env_def quiet_env_def Let_def)
  have enc2: "fst (fetch_wikipedia_site empty_href_env ''!!!'') = None"
    by (simp add: fetch_wikipedia_site_def empty_href_env_def quiet_env_def)
  have encl: "snd (fetch_wikipedia_site empty_href_env ''!!!'') = [WikipediaSearch ''!!!'']"
    by (simp add: fetch_wikipedia_site_def empty_href_env_def quiet_env_def)
  have ws2: "fst (fetch_duckduckgo_site empty_href_env ''!!!'') = Inr (Some '''')"
    by (simp add: fetch_duckduckgo_site_def empty_href_env_def quiet_env_def Let_def eval_defs)
  have "get_website empty_href_env ''!!!'' =
       (Inr (None, ''not_found''),
        WikidataQuery (wikidata_query ''!!!'') # snd (fetch_wikipedia_site empty_href_env ''!!!'')
          @ [DuckDuckGoSearch (''!!!'' @ '' official US website'')])"
    using th [of empty_href_env "''!!!''" "[]", THEN conjunct2, THEN conjunct2, THEN conjunct2,
        rule_format, OF conjI [OF kb2 conjI [OF enc2 ws2]]] .
  then have b: "get_website empty_href_env ''!!!'' =
       (Inr (None, ''not_found''),
        [WikidataQuery (wikidata_query ''!!!''), WikipediaSearch ''!!!'',
         DuckDuckGoSearch ''!!! official US website''])"
    by (simp add: encl)
  show ?thesis by (intro conjI kb enc a ws2 b)
qed

end
